theory Spec2Isabelle
  imports Main "HOL-Library.Sublist"
begin

text \<open>
  A model of the MCP server for Windows desktop automation: the response envelopes and
  the tool handlers of the operation registry (utils/types.ts, tools/*.ts), the file and
  screenshot resources (resources/index.ts), the WebSocket transport and the choice of
  the transport (server/server.ts, index.ts). The automation library, the file system,
  the socket and the protocol SDK are external: what they return or throw is an input of
  the model, and what the code does to them is recorded as a list of actions.
\<close>

section \<open>JavaScript values, exceptions and string conversion\<close>

text \<open>
  A value that a \<^verbatim>\<open>throw\<close> can raise is either an \<^verbatim>\<open>Error\<close> object, with its
  \<^verbatim>\<open>name\<close> and \<^verbatim>\<open>message\<close>, or some other value, which the code of this repository
  only ever converts with \<^verbatim>\<open>String(...)\<close>; such a value is represented by that string.
\<close>

datatype js_error = Error (name: string) (message: string)

datatype thrown = ThrownError js_error | ThrownValue string

text \<open>
  The result of evaluating an expression or awaiting a promise: it throws (the promise
  rejects) or returns (the promise resolves).
\<close>

datatype 'a outcome = Threw thrown | Returned 'a

definition and_then :: "'a outcome \<Rightarrow> ('a \<Rightarrow> 'b outcome) \<Rightarrow> 'b outcome" where
  "and_then m k = (case m of Threw e \<Rightarrow> Threw e | Returned v \<Rightarrow> k v)"

definition try_catch :: "'a outcome \<Rightarrow> (thrown \<Rightarrow> 'a outcome) \<Rightarrow> 'a outcome" where
  "try_catch body handler = (case body of Threw e \<Rightarrow> handler e | Returned v \<Rightarrow> Returned v)"

text \<open>
  A computation that acts on the outside as it goes: the actions taken, in order, and how
  it ended. \<open>then_do\<close> sequences two of them; nothing runs after a throw.
\<close>

type_synonym ('c, 'a) traced = "'c list \<times> 'a outcome"

definition then_do :: "('c, 'a) traced \<Rightarrow> ('a \<Rightarrow> ('c, 'b) traced) \<Rightarrow> ('c, 'b) traced" where
  "then_do m k =
     (case m of
        (cs, Threw e) \<Rightarrow> (cs, Threw e)
      | (cs, Returned v) \<Rightarrow> (case k v of (cs', r) \<Rightarrow> (cs @ cs', r)))"

text \<open>\<^verbatim>\<open>String(error)\<close>: \<^verbatim>\<open>Error.prototype.toString\<close> for an Error object.\<close>

fun js_String :: "thrown \<Rightarrow> string" where
  "js_String (ThrownError (Error n m)) =
     (if m = [] then n else if n = [] then m else n @ '': '' @ m)"
| "js_String (ThrownValue s) = s"

text \<open>\<^verbatim>\<open>error instanceof Error ? error : String(error)\<close>, of type \<^verbatim>\<open>Error | string\<close>.\<close>

fun Error_or_String :: "thrown \<Rightarrow> js_error + string" where
  "Error_or_String (ThrownError e) = Inl e"
| "Error_or_String (ThrownValue s) = Inr s"

text \<open>\<^verbatim>\<open>error instanceof Error ? error.message : String(error)\<close>.\<close>

fun message_or_String :: "thrown \<Rightarrow> string" where
  "message_or_String (ThrownError e) = message e"
| "message_or_String (ThrownValue s) = s"

subsection \<open>Numbers in template literals\<close>

text \<open>
  The numbers that reach a template literal here are result codes, handles, process
  identifiers and coordinates; they are modelled as integers, printed in decimal as
  \<^verbatim>\<open>${n}\<close> prints them.
\<close>

definition digit :: "nat \<Rightarrow> char" where
  "digit d = ''0123456789'' ! d"

function show_nat :: "nat \<Rightarrow> string" where
  "show_nat n = (if n < 10 then [digit n] else show_nat (n div 10) @ [digit (n mod 10)])"
  by pat_completeness auto
termination
  by (relation "measure id") auto

declare show_nat.simps [simp del]

definition show_num :: "int \<Rightarrow> string" where
  "show_num i = (if i < 0 then ''-'' @ show_nat (nat (- i)) else show_nat (nat i))"

section \<open>Response envelopes (utils/types.ts)\<close>

datatype TextContent = TextContent (text_of: string)

record CallToolResult =
  content :: "TextContent list"
  isError :: "bool option"

definition createToolResponse :: "string \<Rightarrow> CallToolResult" where
  "createToolResponse msg = \<lparr>content = [TextContent msg], isError = None\<rparr>"

definition createErrorResponse :: "js_error + string \<Rightarrow> CallToolResult" where
  "createErrorResponse error =
     (let errorMessage = (case error of Inr s \<Rightarrow> s | Inl e \<Rightarrow> message e)
      in \<lparr>content = [TextContent (''Error: '' @ errorMessage)], isError = Some True\<rparr>)"

section \<open>The operation registry (tools/*.ts)\<close>

text \<open>
  Every handler registered with \<^verbatim>\<open>server.tool\<close> has the same shape:
  \<^verbatim>\<open>
  async (params) => {
    try {
      log.verbose(...);
      await autoIt.init();
      const result = await autoIt.<primitive>(...params);
      return createToolResponse(<template literal over params and result>);
    } catch (error) {
      log.error(...);
      return createErrorResponse(error instanceof Error ? error : String(error));
    }
  }
  \<close>
  \<open>tool_handler\<close> is that shape. What \<^verbatim>\<open>autoIt.init()\<close> and the delegated call do is
  given as their outcomes (the automation library is external); \<open>narrate\<close> is the text the
  handler builds from the result. Logging does not influence the value returned and is
  left out.
\<close>

definition tool_handler ::
  "unit outcome \<Rightarrow> 'r outcome \<Rightarrow> ('r \<Rightarrow> string) \<Rightarrow> CallToolResult outcome" where
  "tool_handler init call narrate =
     try_catch
       (and_then init (\<lambda>_.
        and_then call (\<lambda>result.
        Returned (createToolResponse (narrate result)))))
       (\<lambda>error. Returned (createErrorResponse (Error_or_String error)))"

datatype mouse_button = Left | Right | Middle

fun button_name :: "mouse_button \<Rightarrow> string" where
  "button_name Left = ''left''"
| "button_name Right = ''right''"
| "button_name Middle = ''middle''"

datatype wheel_direction = Up | Down

fun direction_name :: "wheel_direction \<Rightarrow> string" where
  "direction_name Up = ''up''"
| "direction_name Down = ''down''"

text \<open>
  \<^verbatim>\<open>Point\<close> and \<^verbatim>\<open>Rect\<close> of utils/types.ts; the field names carry a prefix so that
  \<open>x\<close>, \<open>y\<close>, \<open>left\<close>, ... stay free for variables.
\<close>

record Point =
  point_x :: int
  point_y :: int

record Rect =
  rect_left :: int
  rect_top :: int
  rect_right :: int
  rect_bottom :: int

text \<open>
  The validated parameters of each tool, in the order its handler destructures them.
  The tools are grouped by what their delegated call resolves to: a number, a string, a
  rectangle, a point, or nothing.
\<close>

datatype (plugins only: code size) num_tool =
    MouseMove int int int
  | MouseClick mouse_button "int option" "int option" int int
  | MouseClickDrag mouse_button int int int int int
  | MouseGetCursor
  | AutoItSetOption string int
  | Opt string int
  | WinActivate string "string option"
  | WinActivateByHandle int
  | WinActive string string
  | WinClose string "string option"
  | WinExists string "string option"
  | WinGetHandle string "string option"
  | WinMove string "string option" int int "int option" "int option"
  | WinSetState string "string option" int
  | WinWait string "string option" "int option"
  | WinWaitActive string "string option" "int option"
  | WinWaitClose string "string option" "int option"
  | Run string "string option" "int option"
  | RunWait string "string option" "int option"
  | RunAs string string string int string "string option" "int option"
  | RunAsWait string string string int string "string option" "int option"
  | ProcessExists string
  | ProcessClose string
  | ProcessSetPriority string int
  | ProcessWait string "int option"
  | ProcessWaitClose string "int option"
  | Shutdown int
  | ControlClick string "string option" string mouse_button int "int option" "int option"
  | ControlClickByHandle int int mouse_button int "int option" "int option"
  | ControlSetText string "string option" string string
  | ControlSend string "string option" string string "int option"
  | ControlFocus string "string option" string
  | ControlGetHandle int string
  | ControlMove string "string option" string int int "int option" "int option"
  | ControlShow string "string option" string
  | ControlHide string "string option" string

datatype str_tool =
    ClipGet "int option"
  | WinGetText string "string option" "int option"
  | WinGetTitle string "string option" "int option"
  | ControlCommand string "string option" string string "string option" "int option"
  | ControlGetText string "string option" string "int option"

datatype rect_tool =
    WinGetPos string "string option"
  | ControlGetPos string "string option" string

datatype void_tool =
    Send string int
  | ClipPut string
  | ToolTip string "int option" "int option"
  | MouseDown mouse_button
  | MouseUp mouse_button
  | MouseWheel wheel_direction int

text \<open>
  \<^verbatim>\<open>width && height ? ` and resized to ${width}x${height}` : ''\<close>: an absent or zero
  number is falsy.
\<close>

definition sizeInfo :: "int option \<Rightarrow> int option \<Rightarrow> string" where
  "sizeInfo width height =
     (case (width, height) of
        (Some w, Some h) \<Rightarrow>
          if w \<noteq> 0 \<and> h \<noteq> 0
          then '' and resized to '' @ show_num w @ ''x'' @ show_num h else []
      | _ \<Rightarrow> [])"

text \<open>The text each handler passes to \<^verbatim>\<open>createToolResponse\<close>, tool by tool.\<close>

fun narrate_num :: "num_tool \<Rightarrow> int \<Rightarrow> string" where
  "narrate_num (MouseMove x y speed) result =
     ''Mouse moved to ('' @ show_num x @ '', '' @ show_num y @ '') with result: '' @ show_num result"
| "narrate_num (MouseClick button x y clicks speed) result =
     ''Mouse clicked '' @ button_name button @ '' button '' @ show_num clicks
       @ '' time(s) with result: '' @ show_num result"
| "narrate_num (MouseClickDrag button x1 y1 x2 y2 speed) result =
     ''Mouse dragged from ('' @ show_num x1 @ '', '' @ show_num y1 @ '') to (''
       @ show_num x2 @ '', '' @ show_num y2 @ '') with result: '' @ show_num result"
| "narrate_num MouseGetCursor cursor = ''Mouse cursor type: '' @ show_num cursor"
| "narrate_num (AutoItSetOption option v) result =
     ''AutoIt option \"'' @ option @ ''\" set to '' @ show_num v @ '' with result: '' @ show_num result"
| "narrate_num (Opt option v) result =
     ''AutoIt option \"'' @ option @ ''\" set to '' @ show_num v @ '' with result: '' @ show_num result"
| "narrate_num (WinActivate title text) result =
     ''Window \"'' @ title @ ''\" activated with result: '' @ show_num result"
| "narrate_num (WinActivateByHandle handle) result =
     ''Window with handle '' @ show_num handle @ '' activated with result: '' @ show_num result"
| "narrate_num (WinActive title text) result =
     (let isActive = (result = 1)
      in ''Window \"'' @ title @ ''\" is '' @ (if isActive then ''active'' else ''not active''))"
| "narrate_num (WinClose title text) result =
     ''Window \"'' @ title @ ''\" closed with result: '' @ show_num result"
| "narrate_num (WinExists title text) result =
     (let exists = (result = 1)
      in ''Window \"'' @ title @ ''\" '' @ (if exists then ''exists'' else ''does not exist''))"
| "narrate_num (WinGetHandle title text) handle =
     ''Window \"'' @ title @ ''\" handle: '' @ show_num handle"
| "narrate_num (WinMove title text x y width height) result =
     ''Window \"'' @ title @ ''\" moved to ('' @ show_num x @ '', '' @ show_num y @ '')''
       @ sizeInfo width height @ '' with result: '' @ show_num result"
| "narrate_num (WinSetState title text flags) result =
     ''Window \"'' @ title @ ''\" state set to '' @ show_num flags @ '' with result: ''
       @ show_num result"
| "narrate_num (WinWait title text timeout) result =
     (let success = (result = 1)
      in if success then ''Window \"'' @ title @ ''\" appeared within the timeout''
         else ''Window \"'' @ title @ ''\" did not appear within the timeout'')"
| "narrate_num (WinWaitActive title text timeout) result =
     (let success = (result = 1)
      in if success then ''Window \"'' @ title @ ''\" became active within the timeout''
         else ''Window \"'' @ title @ ''\" did not become active within the timeout'')"
| "narrate_num (WinWaitClose title text timeout) result =
     (let success = (result = 1)
      in if success then ''Window \"'' @ title @ ''\" closed within the timeout''
         else ''Window \"'' @ title @ ''\" did not close within the timeout'')"
| "narrate_num (Run program workingDir showFlag) result =
     ''Program \"'' @ program @ ''\" started with process ID: '' @ show_num result"
| "narrate_num (RunWait program workingDir showFlag) result =
     ''Program \"'' @ program @ ''\" completed with exit code: '' @ show_num result"
| "narrate_num (RunAs user domain password logonFlag program workingDir showFlag) result =
     ''Program \"'' @ program @ ''\" started as user \"'' @ user @ ''\" with process ID: ''
       @ show_num result"
| "narrate_num (RunAsWait user domain password logonFlag program workingDir showFlag) result =
     ''Program \"'' @ program @ ''\" completed as user \"'' @ user @ ''\" with exit code: ''
       @ show_num result"
| "narrate_num (ProcessExists process) result =
     (let exists = (result \<noteq> 0)
      in if exists then ''Process \"'' @ process @ ''\" exists with PID: '' @ show_num result
         else ''Process \"'' @ process @ ''\" does not exist'')"
| "narrate_num (ProcessClose process) result =
     (let success = (result = 1)
      in if success then ''Process \"'' @ process @ ''\" closed successfully''
         else ''Failed to close process \"'' @ process @ ''\"'')"
| "narrate_num (ProcessSetPriority process priority) result =
     (let success = (result = 1)
      in if success then ''Priority for process \"'' @ process @ ''\" set to '' @ show_num priority
         else ''Failed to set priority for process \"'' @ process @ ''\"'')"
| "narrate_num (ProcessWait process timeout) result =
     (let success = (result \<noteq> 0)
      in if success then ''Process \"'' @ process @ ''\" exists with PID: '' @ show_num result
         else ''Timed out waiting for process \"'' @ process @ ''\"'')"
| "narrate_num (ProcessWaitClose process timeout) result =
     (let success = (result = 1)
      in if success then ''Process \"'' @ process @ ''\" closed within the timeout''
         else ''Timed out waiting for process \"'' @ process @ ''\" to close'')"
| "narrate_num (Shutdown flags) result =
     (let success = (result = 1)
      in if success then ''System shutdown initiated with flags: '' @ show_num flags
         else ''Failed to initiate system shutdown'')"
| "narrate_num (ControlClick title text control button clicks x y) result =
     (let success = (result = 1)
      in if success then ''Clicked on control \"'' @ control @ ''\" in window \"'' @ title @ ''\"''
         else ''Failed to click on control \"'' @ control @ ''\" in window \"'' @ title @ ''\"'')"
| "narrate_num (ControlClickByHandle windowHandle controlHandle button clicks x y) result =
     (let success = (result = 1)
      in if success
         then ''Clicked on control handle '' @ show_num controlHandle @ '' in window handle ''
                @ show_num windowHandle
         else ''Failed to click on control handle '' @ show_num controlHandle
                @ '' in window handle '' @ show_num windowHandle)"
| "narrate_num (ControlSetText title text control controlText) result =
     (let success = (result = 1)
      in if success then ''Text set in control \"'' @ control @ ''\" to \"'' @ controlText @ ''\"''
         else ''Failed to set text in control \"'' @ control @ ''\"'')"
| "narrate_num (ControlSend title text control sendText mode) result =
     (let success = (result = 1)
      in if success then ''Keystrokes \"'' @ sendText @ ''\" sent to control \"'' @ control @ ''\"''
         else ''Failed to send keystrokes to control \"'' @ control @ ''\"'')"
| "narrate_num (ControlFocus title text control) result =
     (let success = (result = 1)
      in if success then ''Focus set to control \"'' @ control @ ''\"''
         else ''Failed to set focus to control \"'' @ control @ ''\"'')"
| "narrate_num (ControlGetHandle windowHandle control) handle =
     ''Control \"'' @ control @ ''\" handle: '' @ show_num handle"
| "narrate_num (ControlMove title text control x y width height) result =
     (let success = (result = 1)
      in if success
         then ''Control \"'' @ control @ ''\" moved to ('' @ show_num x @ '', '' @ show_num y @ '')''
                @ sizeInfo width height
         else ''Failed to move control \"'' @ control @ ''\"'')"
| "narrate_num (ControlShow title text control) result =
     (let success = (result = 1)
      in if success then ''Control \"'' @ control @ ''\" shown''
         else ''Failed to show control \"'' @ control @ ''\"'')"
| "narrate_num (ControlHide title text control) result =
     (let success = (result = 1)
      in if success then ''Control \"'' @ control @ ''\" hidden''
         else ''Failed to hide control \"'' @ control @ ''\"'')"

fun narrate_str :: "str_tool \<Rightarrow> string \<Rightarrow> string" where
  "narrate_str (ClipGet bufSize) clipboardContent =
     ''Clipboard content: \"'' @ clipboardContent @ ''\"''"
| "narrate_str (WinGetText title text bufSize) windowText =
     ''Window \"'' @ title @ ''\" text: \"'' @ windowText @ ''\"''"
| "narrate_str (WinGetTitle title text bufSize) windowTitle =
     ''Window \"'' @ title @ ''\" title: \"'' @ windowTitle @ ''\"''"
| "narrate_str (ControlCommand title text control command extra bufSize) result =
     ''Command \"'' @ command @ ''\" sent to control \"'' @ control @ ''\" with result: '' @ result"
| "narrate_str (ControlGetText title text control bufSize) controlText =
     ''Text from control \"'' @ control @ ''\": \"'' @ controlText @ ''\"''"

fun narrate_rect :: "rect_tool \<Rightarrow> Rect \<Rightarrow> string" where
  "narrate_rect (WinGetPos title text) rect =
     (let width = rect_right rect - rect_left rect; height = rect_bottom rect - rect_top rect
      in ''Window \"'' @ title @ ''\" position: Left='' @ show_num (rect_left rect)
           @ '', Top='' @ show_num (rect_top rect) @ '', Width='' @ show_num width
           @ '', Height='' @ show_num height)"
| "narrate_rect (ControlGetPos title text control) rect =
     (let width = rect_right rect - rect_left rect; height = rect_bottom rect - rect_top rect
      in ''Control \"'' @ control @ ''\" position: Left='' @ show_num (rect_left rect)
           @ '', Top='' @ show_num (rect_top rect) @ '', Width='' @ show_num width
           @ '', Height='' @ show_num height)"

definition narrate_point :: "Point \<Rightarrow> string" where
  "narrate_point position =
     ''Mouse position: ('' @ show_num (point_x position) @ '', '' @ show_num (point_y position) @ '')''"

fun narrate_void :: "void_tool \<Rightarrow> unit \<Rightarrow> string" where
  "narrate_void (Send text mode) _ =
     ''Sent keystrokes: \"'' @ text @ ''\" with mode '' @ show_num mode"
| "narrate_void (ClipPut text) _ = ''Text set to clipboard: \"'' @ text @ ''\"''"
| "narrate_void (ToolTip text x y) _ =
     (let position =
        (case (x, y) of
           (Some x', Some y') \<Rightarrow> '' at position ('' @ show_num x' @ '', '' @ show_num y' @ '')''
         | _ \<Rightarrow> [])
      in ''Tooltip displayed: \"'' @ text @ ''\"'' @ position)"
| "narrate_void (MouseDown button) _ = ''Mouse '' @ button_name button @ '' button pressed down''"
| "narrate_void (MouseUp button) _ = ''Mouse '' @ button_name button @ '' button released''"
| "narrate_void (MouseWheel direction clicks) _ =
     ''Mouse wheel scrolled '' @ direction_name direction @ '' '' @ show_num clicks @ '' click(s)''"

text \<open>
  One invocation of a registered tool: the tool with its validated parameters, and what
  the delegated call did.
\<close>

datatype invocation =
    NumTool num_tool "int outcome"
  | StrTool str_tool "string outcome"
  | RectTool rect_tool "Rect outcome"
  | PointTool "Point outcome"
  | VoidTool void_tool "unit outcome"

fun invoke :: "unit outcome \<Rightarrow> invocation \<Rightarrow> CallToolResult outcome" where
  "invoke init (NumTool t call) = tool_handler init call (narrate_num t)"
| "invoke init (StrTool t call) = tool_handler init call (narrate_str t)"
| "invoke init (RectTool t call) = tool_handler init call (narrate_rect t)"
| "invoke init (PointTool call) = tool_handler init call narrate_point"
| "invoke init (VoidTool t call) = tool_handler init call (narrate_void t)"

text \<open>What the delegated part of an invocation did, with the value it returned forgotten.\<close>

fun delegated :: "invocation \<Rightarrow> unit outcome" where
  "delegated (NumTool t call) = and_then call (\<lambda>_. Returned ())"
| "delegated (StrTool t call) = and_then call (\<lambda>_. Returned ())"
| "delegated (RectTool t call) = and_then call (\<lambda>_. Returned ())"
| "delegated (PointTool call) = and_then call (\<lambda>_. Returned ())"
| "delegated (VoidTool t call) = call"

subsection \<open>Success tests and phrasing\<close>


text \<open>
  The phrasing of a text is what it says apart from the numbers it reports: the text with
  the decimal digits and minus signs erased. Two texts are phrased alike when their
  phrasings are equal, so a success text and a failure text must differ in phrasing.
\<close>

definition code_char :: "char \<Rightarrow> bool" where
  "code_char c = (c \<in> set ''0123456789-'')"

definition phrasing :: "string \<Rightarrow> string" where
  "phrasing s = filter (\<lambda>c. \<not> code_char c) s"


text \<open>A text that ends with a character of a number (a digit or a minus sign).\<close>

definition ends_with_code :: "string \<Rightarrow> bool" where
  "ends_with_code s = (s \<noteq> [] \<and> code_char (last s))"

section \<open>Resources (resources/index.ts)\<close>

text \<open>
  One entry of a resource result's \<^verbatim>\<open>contents\<close>: the \<^verbatim>\<open>uri\<close>, the \<^verbatim>\<open>mimeType\<close>, and
  either a \<^verbatim>\<open>text\<close> or a \<^verbatim>\<open>blob\<close> key (an absent key is \<open>None\<close>). The field for
  \<^verbatim>\<open>text\<close> is written \<open>text'\<close>.
\<close>

record ResourceContents =
  uri :: string
  text' :: "string option"
  blob :: "string option"
  mimeType :: string

record ReadResourceResult =
  contents :: "ResourceContents list"

subsection \<open>getMimeType\<close>

definition mimeTypes :: "(string \<times> string) list" where
  "mimeTypes =
     [(''.txt'', ''text/plain''),
      (''.html'', ''text/html''),
      (''.css'', ''text/css''),
      (''.js'', ''application/javascript''),
      (''.ts'', ''application/typescript''),
      (''.json'', ''application/json''),
      (''.xml'', ''application/xml''),
      (''.md'', ''text/markdown''),
      (''.csv'', ''text/csv''),
      (''.png'', ''image/png''),
      (''.jpg'', ''image/jpeg''),
      (''.jpeg'', ''image/jpeg''),
      (''.gif'', ''image/gif''),
      (''.svg'', ''image/svg+xml''),
      (''.pdf'', ''application/pdf''),
      (''.doc'', ''application/msword''),
      (''.docx'', ''application/vnd.openxmlformats-officedocument.wordprocessingml.document''),
      (''.xls'', ''application/vnd.ms-excel''),
      (''.xlsx'', ''application/vnd.openxmlformats-officedocument.spreadsheetml.sheet''),
      (''.ppt'', ''application/vnd.ms-powerpoint''),
      (''.pptx'', ''application/vnd.openxmlformats-officedocument.presentationml.presentation''),
      (''.zip'', ''application/zip''),
      (''.rar'', ''application/x-rar-compressed''),
      (''.7z'', ''application/x-7z-compressed''),
      (''.tar'', ''application/x-tar''),
      (''.gz'', ''application/gzip'')]"

text \<open>
  \<^verbatim>\<open>mimeTypes[extension] || 'application/octet-stream'\<close>. The extension passed in is a result
  of \<^verbatim>\<open>path.extname\<close>, which is empty or starts with a dot, so it names no inherited
  property of the table object.
\<close>

definition getMimeType :: "string \<Rightarrow> string" where
  "getMimeType extension =
     (case map_of mimeTypes extension of
        Some m \<Rightarrow> if m = [] then ''application/octet-stream'' else m
      | None \<Rightarrow> ''application/octet-stream'')"

subsection \<open>The file resource\<close>

definition textExtensions :: "string list" where
  "textExtensions =
     [''.txt'', ''.md'', ''.js'', ''.ts'', ''.html'', ''.css'', ''.json'', ''.xml'',
      ''.csv'', ''.log'', ''.ini'', ''.cfg'', ''.conf'', ''.py'', ''.c'', ''.cpp'',
      ''.h'', ''.java'', ''.sh'', ''.bat'', ''.ps1'']"

text \<open>\<^verbatim>\<open>String.prototype.toLowerCase\<close> on the ASCII letters.\<close>

definition toLowerCase_char :: "char \<Rightarrow> char" where
  "toLowerCase_char c =
     (case map_of (zip ''ABCDEFGHIJKLMNOPQRSTUVWXYZ'' ''abcdefghijklmnopqrstuvwxyz'') c of
        Some l \<Rightarrow> l
      | None \<Rightarrow> c)"

definition toLowerCase :: "string \<Rightarrow> string" where
  "toLowerCase s = map toLowerCase_char s"

text \<open>\<^verbatim>\<open>Array.prototype.join\<close> on strings.\<close>

fun join :: "string \<Rightarrow> string list \<Rightarrow> string" where
  "join sep [] = []"
| "join sep [s] = s"
| "join sep (s # t # ss) = s @ sep @ join sep (t # ss)"

text \<open>
  What the handler uses of the platform: \<^verbatim>\<open>fs.stat\<close> (of which only \<^verbatim>\<open>isDirectory()\<close> is
  read), \<^verbatim>\<open>fs.readdir\<close>, \<^verbatim>\<open>fs.readFile\<close>, \<^verbatim>\<open>path.extname\<close>, \<^verbatim>\<open>path.join\<close> and the two
  \<^verbatim>\<open>Buffer.toString\<close> encodings. \<open>'buf\<close> is the type of a file's content.
\<close>

record 'buf file_system =
  fs_stat :: "string \<Rightarrow> bool outcome"
  fs_readdir :: "string \<Rightarrow> string list outcome"
  fs_readFile :: "string \<Rightarrow> 'buf outcome"
  path_extname :: "string \<Rightarrow> string"
  path_join :: "string \<Rightarrow> string \<Rightarrow> string"
  toString_utf8 :: "'buf \<Rightarrow> string"
  toString_base64 :: "'buf \<Rightarrow> string"

text \<open>
  The template variable \<^verbatim>\<open>params.path\<close> is one string or an array of strings:
  \<^verbatim>\<open>Array.isArray(params.path) ? params.path.join('/') : params.path\<close>.
\<close>

datatype path_param = Single string | Many "string list"

text \<open>
  \<^verbatim>\<open>await Promise.all(files.map(async (file) => ... await fs.stat(fullPath) ...))\<close>: the
  directory listing is computed and then unused; it matters only in that a failing
  \<^verbatim>\<open>stat\<close> rejects the whole.
\<close>

fun stat_all :: "'buf file_system \<Rightarrow> string \<Rightarrow> string list \<Rightarrow> unit outcome" where
  "stat_all F filePath [] = Returned ()"
| "stat_all F filePath (file # files) =
     and_then (fs_stat F (path_join F filePath file)) (\<lambda>_. stat_all F filePath files)"

definition filePath_of :: "path_param \<Rightarrow> string" where
  "filePath_of path = (case path of Many ps \<Rightarrow> join ''/'' ps | Single p \<Rightarrow> p)"

definition file_resource ::
  "'buf file_system \<Rightarrow> string \<Rightarrow> path_param \<Rightarrow> ReadResourceResult outcome" where
  "file_resource F href path =
     try_catch
       (let filePath = filePath_of path in
        and_then (fs_stat F filePath) (\<lambda>isDirectory.
          if isDirectory then
            and_then (fs_readdir F filePath) (\<lambda>files.
            and_then (stat_all F filePath files) (\<lambda>_.
            Returned \<lparr>contents =
              [\<lparr>uri = href,
                text' = Some (''Directory: '' @ filePath @ [CHR 0x0A] @ join [CHR 0x0A] files),
                blob = None,
                mimeType = ''text/plain''\<rparr>]\<rparr>))
          else
            and_then (fs_readFile F filePath) (\<lambda>content.
              let extension = toLowerCase (path_extname F filePath);
                  isTextFile = (extension \<in> set textExtensions)
              in if isTextFile then
                   Returned \<lparr>contents =
                     [\<lparr>uri = href, text' = Some (toString_utf8 F content), blob = None,
                       mimeType = getMimeType extension\<rparr>]\<rparr>
                 else
                   Returned \<lparr>contents =
                     [\<lparr>uri = href, text' = None, blob = Some (toString_base64 F content),
                       mimeType = getMimeType extension\<rparr>]\<rparr>)))
       (\<lambda>error. Threw (ThrownError (Error ''Error''
          (''Failed to read file: '' @ message_or_String error))))"

subsection \<open>The screenshot resource\<close>

text \<open>
  The calls the handler makes into the automation library, in order, and the half-second
  wait after activating a window.
\<close>

datatype auto_call = Call_init | Call_winExists string | Call_winActivate string | Wait_ms nat

record automation =
  autoIt_init :: "unit outcome"
  autoIt_winExists :: "string \<Rightarrow> int outcome"
  autoIt_winActivate :: "string \<Rightarrow> int outcome"

text \<open>
  \<^verbatim>\<open>params.window ? String(params.window) : undefined\<close>: an absent or empty window name is
  falsy, and so is the resulting \<^verbatim>\<open>windowName\<close> in \<^verbatim>\<open>if (windowName)\<close> and in
  \<^verbatim>\<open>windowName || 'full screen'\<close>.
\<close>

definition windowName_of :: "string option \<Rightarrow> string option" where
  "windowName_of window = (case window of None \<Rightarrow> None | Some w \<Rightarrow> if w = [] then None else Some w)"

definition screenshot_resource ::
  "automation \<Rightarrow> string \<Rightarrow> string option \<Rightarrow> (auto_call, ReadResourceResult) traced" where
  "screenshot_resource A href window =
     (case
        then_do ([Call_init], autoIt_init A) (\<lambda>_.
        let windowName = windowName_of window in
        then_do
          (case windowName of
             Some w \<Rightarrow>
               then_do ([Call_winExists w], autoIt_winExists A w) (\<lambda>windowExists.
                 if windowExists \<noteq> 0 then
                   then_do ([Call_winActivate w], autoIt_winActivate A w) (\<lambda>_.
                   ([Wait_ms 500], Returned ()))
                 else
                   ([], Threw (ThrownError (Error ''Error'' (''Window \"'' @ w @ ''\" not found'')))))
           | None \<Rightarrow> ([], Returned ()))
          (\<lambda>_.
        ([], Returned \<lparr>contents =
          [\<lparr>uri = href,
            text' = Some (''Screenshot of ''
                     @ (case windowName of Some w \<Rightarrow> w | None \<Rightarrow> ''full screen'')
                     @ '' would be captured here''),
            blob = None,
            mimeType = ''text/plain''\<rparr>]\<rparr>)))
      of
        (cs, Threw error) \<Rightarrow>
          (cs, Threw (ThrownError (Error ''Error''
                 (''Failed to take screenshot: '' @ message_or_String error))))
      | (cs, Returned v) \<Rightarrow> (cs, Returned v))"

section \<open>The WebSocket transport (server/server.ts)\<close>

text \<open>
  \<^verbatim>\<open>JSON.parse\<close> and \<^verbatim>\<open>JSON.stringify\<close> belong to the platform; the transport is modelled
  over any pair of them, \<open>'m\<close> being the type of a structured message.
  \<^verbatim>\<open>JSON.stringify\<close> is taken to return: it throws only on values that are no structured
  messages (cyclic objects, big integers). A socket is known by its identity.
\<close>

record 'm JSON =
  JSON_parse :: "string \<Rightarrow> 'm outcome"
  JSON_stringify :: "'m \<Rightarrow> string"

type_synonym socket = nat

text \<open>
  The fields of \<^verbatim>\<open>class WebSocketServerTransport\<close>. A callback that has not been assigned
  is \<open>None\<close>; an assigned one may itself throw.
\<close>

record 'm WebSocketServerTransport =
  ws :: "socket option"
  sessionId :: string
  onclose :: "(unit \<Rightarrow> unit outcome) option"
  onerror :: "(js_error \<Rightarrow> unit outcome) option"
  onmessage :: "('m \<Rightarrow> unit outcome) option"

text \<open>The state of a promise that a method returns.\<close>

datatype 'a promise_state = Pending | Resolved 'a | Rejected thrown

text \<open>
  What a transport does to the outside: the callbacks it invokes, its calls on the socket,
  and the promises its methods return.
\<close>

datatype 'm transport_action =
    Called_onmessage 'm
  | Called_onerror js_error
  | Called_onclose
  | Socket_send socket string
  | Socket_close socket
  | Logged_info string
  | Returned_promise "unit promise_state"

text \<open>\<^verbatim>\<open>this.on...?.(arg)\<close>: the callback is invoked when it is assigned.\<close>

definition optional_call ::
  "('a \<Rightarrow> unit outcome) option \<Rightarrow> 'a \<Rightarrow> 'c \<Rightarrow> ('c, unit) traced" where
  "optional_call callback arg action =
     (case callback of None \<Rightarrow> ([], Returned ()) | Some f \<Rightarrow> ([action], f arg))"

definition try_catch_traced ::
  "('c, 'a) traced \<Rightarrow> (thrown \<Rightarrow> ('c, 'a) traced) \<Rightarrow> ('c, 'a) traced" where
  "try_catch_traced body handler =
     (case body of
        (cs, Threw e) \<Rightarrow> (case handler e of (cs', r) \<Rightarrow> (cs @ cs', r))
      | (cs, Returned v) \<Rightarrow> (cs, Returned v))"

text \<open>
  The constructor; \<open>random\<close> is \<^verbatim>\<open>Math.random().toString(36).substring(2, 15)\<close>. It
  registers the three listeners below on the socket.
\<close>

definition new_WebSocketServerTransport :: "socket \<Rightarrow> string \<Rightarrow> 'm WebSocketServerTransport" where
  "new_WebSocketServerTransport socket random =
     \<lparr>ws = Some socket, sessionId = random, onclose = None, onerror = None, onmessage = None\<rparr>"

text \<open>
  The \<^verbatim>\<open>'message'\<close> listener; \<open>data\<close> is \<^verbatim>\<open>data.toString()\<close>, the text of the frame. The
  \<^verbatim>\<open>try\<close> block holds the call of \<^verbatim>\<open>onmessage\<close> as well as the parse.
\<close>

definition on_message ::
  "'m JSON \<Rightarrow> 'm WebSocketServerTransport \<Rightarrow> string \<Rightarrow> ('m transport_action, unit) traced" where
  "on_message J this data =
     try_catch_traced
       (then_do ([], JSON_parse J data) (\<lambda>msg.
        optional_call (onmessage this) msg (Called_onmessage msg)))
       (\<lambda>error.
          let failure = Error ''Error'' (''Failed to parse message: '' @ js_String error)
          in optional_call (onerror this) failure (Called_onerror failure))"

text \<open>The \<^verbatim>\<open>'close'\<close> listener.\<close>

definition on_close ::
  "'m WebSocketServerTransport \<Rightarrow> 'm WebSocketServerTransport \<times> ('m transport_action, unit) traced" where
  "on_close this = (this\<lparr>ws := None\<rparr>, optional_call (onclose this) () Called_onclose)"

text \<open>The \<^verbatim>\<open>'error'\<close> listener.\<close>

definition on_error ::
  "'m WebSocketServerTransport \<Rightarrow> js_error \<Rightarrow> ('m transport_action, unit) traced" where
  "on_error this error = optional_call (onerror this) error (Called_onerror error)"

definition start ::
  "'m WebSocketServerTransport \<Rightarrow> 'm transport_action list \<times> unit promise_state" where
  "start this = ([Logged_info ''WebSocket transport started''], Resolved ())"

text \<open>
  What the socket does with the completion callback handed to \<^verbatim>\<open>ws.send\<close>: it has not
  called it (yet), or it has called it, with or without an error.
\<close>

datatype write_completion = Not_completed | Completed "js_error option"

definition send ::
  "'m JSON \<Rightarrow> 'm WebSocketServerTransport \<Rightarrow> 'm \<Rightarrow> write_completion
     \<Rightarrow> 'm transport_action list \<times> unit promise_state" where
  "send J this msg written =
     (case ws this of
        None \<Rightarrow> ([], Rejected (ThrownError (Error ''Error'' ''WebSocket not connected'')))
      | Some socket \<Rightarrow>
          ([Socket_send socket (JSON_stringify J msg)],
           (case written of
              Not_completed \<Rightarrow> Pending
            | Completed (Some error) \<Rightarrow> Rejected (ThrownError error)
            | Completed None \<Rightarrow> Resolved ())))"

definition close ::
  "'m WebSocketServerTransport \<Rightarrow> 'm WebSocketServerTransport \<times> 'm transport_action list" where
  "close this =
     (case ws this of
        Some socket \<Rightarrow> (this\<lparr>ws := None\<rparr>, [Socket_close socket])
      | None \<Rightarrow> (this, []))"

subsection \<open>Executions of one transport\<close>

text \<open>
  What can happen to a transport: the message-handling core calls one of its methods, or
  the socket emits one of the three events.
\<close>

datatype 'm stimulus =
    Do_start
  | Do_send 'm write_completion
  | Do_close
  | On_message string
  | On_close
  | On_error js_error

fun step ::
  "'m JSON \<Rightarrow> 'm WebSocketServerTransport \<Rightarrow> 'm stimulus
     \<Rightarrow> 'm WebSocketServerTransport \<times> ('m transport_action, unit) traced" where
  "step J this Do_start = (this, (fst (start this) @ [Returned_promise (snd (start this))], Returned ()))"
| "step J this (Do_send msg written) =
     (this, (fst (send J this msg written) @ [Returned_promise (snd (send J this msg written))],
             Returned ()))"
| "step J this Do_close = (fst (close this), (snd (close this) @ [Returned_promise (Resolved ())], Returned ()))"
| "step J this (On_message data) = (this, on_message J this data)"
| "step J this On_close = on_close this"
| "step J this (On_error error) = (this, on_error this error)"

text \<open>
  An execution handles the stimuli one after the other. An exception that escapes a
  listener is uncaught and ends the execution.
\<close>

fun run ::
  "'m JSON \<Rightarrow> 'm WebSocketServerTransport \<Rightarrow> 'm stimulus list
     \<Rightarrow> 'm WebSocketServerTransport \<times> 'm transport_action list" where
  "run J this [] = (this, [])"
| "run J this (s # ss) =
     (case step J this s of
        (this', (as, Threw e)) \<Rightarrow> (this', as)
      | (this', (as, Returned _)) \<Rightarrow>
          (case run J this' ss of (this'', as') \<Rightarrow> (this'', as @ as')))"

section \<open>Choosing the transport (server/server.ts, index.ts)\<close>

text \<open>
  Objects are known by their identity. The effects of setting up and starting the
  server: the objects constructed, the connections made, the log lines and the exit.
\<close>

type_synonym ref = nat

datatype effect =
    New_McpServer ref
  | Register_tools ref
  | Register_resources ref
  | Register_prompts ref
  | New_StdioServerTransport ref
  | New_HttpServer ref
  | New_WebSocketServer ref ref
  | New_WebSocketServerTransport ref socket
  | Server_connect ref ref
  | Http_listen ref int
  | Log_info string
  | Log_error string "thrown option"
  | Process_exit int

record ServerConfig =
  config_name :: string
  config_version :: string
  config_transport :: string
  config_port :: "int option"

text \<open>What \<^verbatim>\<open>setupServer\<close> resolves to: \<^verbatim>\<open>{ server, httpServer? }\<close>.\<close>

record setup_result =
  result_server :: ref
  result_httpServer :: "ref option"

text \<open>
  The state of the process as far as \<^verbatim>\<open>setupServer\<close> is concerned: the next unused object
  identity, the effects so far, and the transports constructed, by identity.
\<close>

record 'm world =
  fresh :: ref
  effects :: "effect list"
  transports :: "ref \<rightharpoonup> 'm WebSocketServerTransport"

text \<open>
  \<^verbatim>\<open>setupServer(config)\<close>; \<open>connect\<close> is what \<^verbatim>\<open>server.connect\<close> does for the stdio
  transport. \<^verbatim>\<open>${config.port}\<close> prints an absent port as \<^verbatim>\<open>undefined\<close>, and
  \<^verbatim>\<open>config.port || 3000\<close> replaces an absent or zero port.
\<close>

definition setupServer ::
  "ServerConfig \<Rightarrow> unit outcome \<Rightarrow> 'm world \<Rightarrow> setup_result outcome \<times> 'm world" where
  "setupServer config connect w =
     (let server = fresh w;
          w1 = w\<lparr>fresh := server + 1, effects := effects w @ [New_McpServer server]\<rparr>
      in
      if config_transport config = ''stdio'' then
        (let transport = fresh w1;
             w2 = w1\<lparr>fresh := transport + 1,
                     effects := effects w1 @
                       [Log_info ''Using stdio transport'',
                        New_StdioServerTransport transport,
                        Server_connect server transport]\<rparr>
         in (and_then connect
               (\<lambda>_. Returned \<lparr>result_server = server, result_httpServer = None\<rparr>), w2))
      else if config_transport config = ''websocket'' then
        (let httpServer = fresh w1;
             wss = httpServer + 1;
             w2 = w1\<lparr>fresh := wss + 1,
                     effects := effects w1 @
                       [Log_info (''Using WebSocket transport on port '' @
                          (case config_port config of None \<Rightarrow> ''undefined'' | Some p \<Rightarrow> show_num p)),
                        New_HttpServer httpServer,
                        New_WebSocketServer wss httpServer,
                        Http_listen httpServer
                          (case config_port config of
                             None \<Rightarrow> 3000 | Some p \<Rightarrow> if p = 0 then 3000 else p)]\<rparr>
         in (Returned \<lparr>result_server = server, result_httpServer = Some httpServer\<rparr>, w2))
      else
        (Threw (ThrownError (Error ''Error''
           (''Unsupported transport: '' @ config_transport config))), w1))"

text \<open>
  The \<^verbatim>\<open>'connection'\<close> listener that \<^verbatim>\<open>setupServer\<close> registers; \<open>server\<close> is the variable
  of \<^verbatim>\<open>setupServer\<close> it closes over, \<open>socket\<close> the accepted connection and \<open>random\<close> the
  random string of the transport's constructor.
\<close>

definition on_connection :: "ref \<Rightarrow> socket \<Rightarrow> string \<Rightarrow> 'm world \<Rightarrow> 'm world" where
  "on_connection server socket random w =
     (let transport = fresh w
      in w\<lparr>fresh := transport + 1,
            effects := effects w @
              [Log_info ''New WebSocket connection'',
               New_WebSocketServerTransport transport socket,
               Server_connect server transport],
            transports := (transports w)(transport \<mapsto> new_WebSocketServerTransport socket random)\<rparr>)"

fun accept_all :: "ref \<Rightarrow> (socket \<times> string) list \<Rightarrow> 'm world \<Rightarrow> 'm world" where
  "accept_all server [] w = w"
| "accept_all server ((socket, random) # rest) w =
     accept_all server rest (on_connection server socket random w)"

text \<open>
  Setting up the server and then accepting connections, which only a server set up for
  the websocket transport does.
\<close>

definition serve :: "ServerConfig \<Rightarrow> (socket \<times> string) list \<Rightarrow> 'm world \<Rightarrow> 'm world" where
  "serve config accepted w =
     (case setupServer config (Returned ()) w of
        (Returned r, w') \<Rightarrow>
          (case result_httpServer r of
             Some _ \<Rightarrow> accept_all (result_server r) accepted w'
           | None \<Rightarrow> w')
      | (Threw e, w') \<Rightarrow> w')"

text \<open>
  The sessions among some effects: each \<^verbatim>\<open>server.connect(transport)\<close> attaches a transport
  to a message-handling core, the pair (core, transport).
\<close>

fun sessions :: "effect list \<Rightarrow> (ref \<times> ref) list" where
  "sessions [] = []"
| "sessions (Server_connect server transport # es) = (server, transport) # sessions es"
| "sessions (_ # es) = sessions es"

text \<open>The message-handling cores constructed among some effects.\<close>

fun cores :: "effect list \<Rightarrow> ref list" where
  "cores [] = []"
| "cores (New_McpServer server # es) = server # cores es"
| "cores (_ # es) = cores es"

subsection \<open>startServer (index.ts)\<close>

text \<open>
  \<^verbatim>\<open>startServer()\<close> of index.ts, for the transport kind and port read from the command
  line; \<open>connect\<close> is what \<^verbatim>\<open>server.connect\<close> does. \<^verbatim>\<open>process.exit\<close> does not return, so
  nothing follows it.
\<close>

definition startServer :: "string \<Rightarrow> int \<Rightarrow> unit outcome \<Rightarrow> effect list" where
  "startServer transport port connect =
     (let server = 0; transportInstance = 1 in
      [New_McpServer server, Register_tools server, Register_resources server,
       Register_prompts server] @
      (if transport = ''stdio'' then
         [Log_info ''Using stdio transport'', New_StdioServerTransport transportInstance,
          Server_connect server transportInstance] @
         (case connect of
            Returned _ \<Rightarrow> [Log_info ''Server started successfully'']
          | Threw error \<Rightarrow> [Log_error ''Failed to start server'' (Some error), Process_exit 1])
       else if transport = ''websocket'' then
         [Log_info (''Using WebSocket transport on port '' @ show_num port),
          Log_error ''WebSocket transport not fully implemented yet'' None,
          Process_exit 1]
       else
         [Log_error ''Failed to start server''
            (Some (ThrownError (Error ''Error'' (''Unsupported transport: '' @ transport)))),
          Process_exit 1]))"

text \<open>
  Whether an effect opens a network or stream resource: the stdio transport, the HTTP
  server, the WebSocket server, a connection, a listening port.
\<close>

fun opens_resource :: "effect \<Rightarrow> bool" where
  "opens_resource (New_StdioServerTransport _) = True"
| "opens_resource (New_HttpServer _) = True"
| "opens_resource (New_WebSocketServer _ _) = True"
| "opens_resource (New_WebSocketServerTransport _ _) = True"
| "opens_resource (Server_connect _ _) = True"
| "opens_resource (Http_listen _ _) = True"
| "opens_resource _ = False"

text \<open>
  The callbacks assigned to a transport all return normally, whatever they are called
  with.
\<close>

definition callbacks_return :: "'m WebSocketServerTransport \<Rightarrow> bool" where
  "callbacks_return this =
     ((\<forall>f. onclose this = Some f \<longrightarrow> f () = Returned ()) \<and>
      (\<forall>f e. onerror this = Some f \<longrightarrow> f e = Returned ()) \<and>
      (\<forall>f m. onmessage this = Some f \<longrightarrow> f m = Returned ()))"

section \<open>Properties of the operation registry\<close>

lemma tool_handler_init_threw:
  "tool_handler (Threw e) call narrate = Returned (createErrorResponse (Error_or_String e))"
  by (simp add: tool_handler_def try_catch_def and_then_def)

lemma tool_handler_call_threw:
  "tool_handler (Returned u) (Threw e) narrate = Returned (createErrorResponse (Error_or_String e))"
  by (simp add: tool_handler_def try_catch_def and_then_def)


lemma createErrorResponse_text:
  "createErrorResponse (Error_or_String e) =
     \<lparr>content = [TextContent (''Error: '' @ message_or_String e)], isError = Some True\<rparr>"
  by (cases e) (simp_all add: createErrorResponse_def)

lemma invoke_returns: "\<exists>env. invoke init iv = Returned env"
  by (cases iv; cases init)
     (auto simp: tool_handler_def try_catch_def and_then_def split: outcome.splits)

lemma invoke_threw:
  "and_then init (\<lambda>_. delegated iv) = Threw e \<Longrightarrow>
   invoke init iv =
     Returned \<lparr>content = [TextContent (''Error: '' @ message_or_String e)], isError = Some True\<rparr>"
  by (cases iv; cases init)
     (auto simp: tool_handler_init_threw tool_handler_call_threw createErrorResponse_text
                 and_then_def split: outcome.splits)


subsection \<open>Phrasing\<close>

lemma phrasing_append [simp]: "phrasing (s @ t) = phrasing s @ phrasing t"
  by (simp add: phrasing_def)

lemma phrasing_Nil [simp]: "phrasing [] = []"
  by (simp add: phrasing_def)

lemma phrasing_Cons [simp]:
  "phrasing (c # s) = (if code_char c then phrasing s else c # phrasing s)"
  by (simp add: phrasing_def)

lemma code_char_digit: "d < 10 \<Longrightarrow> code_char (digit d)"
proof -
  assume "d < 10"
  then have "''0123456789'' ! d \<in> set ''0123456789''"
    by (intro nth_mem) simp
  then show ?thesis
    by (auto simp: code_char_def digit_def)
qed

lemma phrasing_show_nat [simp]: "phrasing (show_nat n) = []"
proof (induction n rule: show_nat.induct)
  case (1 n)
  show ?case
  proof (cases "n < 10")
    case True
    then show ?thesis by (subst show_nat.simps) (simp add: code_char_digit)
  next
    case False
    then have "phrasing (show_nat (n div 10)) = []" using 1 by simp
    with False show ?thesis
      by (subst show_nat.simps) (simp add: code_char_digit)
  qed
qed

lemma phrasing_show_num [simp]: "phrasing (show_num i) = []"
  by (simp add: show_num_def code_char_def)



subsection \<open>Failure phrasing\<close>

lemma ends_with_code_show_nat: "ends_with_code (show_nat n)"
  by (subst show_nat.simps) (simp add: ends_with_code_def code_char_digit)

lemma ends_with_code_show_num [simp]: "ends_with_code (show_num i)"
  using ends_with_code_show_nat by (simp add: show_num_def ends_with_code_def)

lemma ends_with_code_append [simp]:
  "ends_with_code (a @ b) = (if b = [] then ends_with_code a else ends_with_code b)"
  by (simp add: ends_with_code_def)

lemma ends_with_code_Cons [simp]:
  "ends_with_code (c # s) = (if s = [] then code_char c else ends_with_code s)"
  by (simp add: ends_with_code_def)

lemma show_num_nonempty [simp]: "show_num i \<noteq> []"
  using ends_with_code_show_num[of i] by (simp add: ends_with_code_def del: ends_with_code_show_num)






subsection \<open>Claim C3\<close>

text \<open>
  C3. Every tool-handler invocation returns one response envelope and never throws,
  whatever \<^verbatim>\<open>autoIt.init()\<close> and the delegated call do. If either of them throws, the
  envelope carries the error flag and its text is \<^verbatim>\<open>Error: \<close> followed by the message of
  the thrown Error, or by the string form of what was thrown when it is not an Error, so
  the text contains that message. In particular clipGet, when its delegated call throws
  \<^verbatim>\<open>"access denied"\<close> (as a string or as an Error with that message), answers with the
  error-flagged envelope of text \<^verbatim>\<open>Error: access denied\<close>.
\<close>

theorem tool_invocation_returns_one_envelope:
  "(\<exists>env. invoke init iv = Returned env) \<and>
   (\<forall>e. and_then init (\<lambda>_. delegated iv) = Threw e \<longrightarrow>
      invoke init iv =
        Returned \<lparr>content = [TextContent (''Error: '' @ message_or_String e)],
                  isError = Some True\<rparr>
      \<and> sublist (message_or_String e) (''Error: '' @ message_or_String e)) \<and>
   invoke (Returned ()) (StrTool (ClipGet bufSize) (Threw (ThrownValue ''access denied''))) =
     Returned \<lparr>content = [TextContent ''Error: access denied''], isError = Some True\<rparr> \<and>
   invoke (Returned ()) (StrTool (ClipGet bufSize) (Threw (ThrownError (Error n ''access denied'')))) =
     Returned \<lparr>content = [TextContent ''Error: access denied''], isError = Some True\<rparr> \<and>
   sublist ''access denied'' ''Error: access denied''"
proof (intro conjI allI impI)
  show "\<exists>env. invoke init iv = Returned env"
    by (rule invoke_returns)
next
  fix e assume "and_then init (\<lambda>_. delegated iv) = Threw e"
  then show "invoke init iv =
      Returned \<lparr>content = [TextContent (''Error: '' @ message_or_String e)], isError = Some True\<rparr>"
    by (rule invoke_threw)
next
  fix e show "sublist (message_or_String e) (''Error: '' @ message_or_String e)"
    by (rule suffix_imp_sublist) (simp add: suffix_def)
next
  show "invoke (Returned ()) (StrTool (ClipGet bufSize) (Threw (ThrownValue ''access denied''))) =
     Returned \<lparr>content = [TextContent ''Error: access denied''], isError = Some True\<rparr>"
    by (simp add: tool_handler_call_threw createErrorResponse_def)
next
  show "invoke (Returned ()) (StrTool (ClipGet bufSize) (Threw (ThrownError (Error n ''access denied'')))) =
     Returned \<lparr>content = [TextContent ''Error: access denied''], isError = Some True\<rparr>"
    by (simp add: tool_handler_call_threw createErrorResponse_def)
next
  have "suffix ''access denied'' ''Error: access denied''"
    by (simp add: suffix_def)
  then show "sublist ''access denied'' ''Error: access denied''"
    by (rule suffix_imp_sublist)
qed

theorem tool_invocation_returns_one_envelope_witness:
  "and_then (Returned ()) (\<lambda>_. delegated (NumTool (ProcessClose ''notepad.exe'')
       (Threw (ThrownError (Error ''Error'' ''AutoIt not loaded''))))) =
     Threw (ThrownError (Error ''Error'' ''AutoIt not loaded'')) \<and>
   invoke (Returned ()) (NumTool (ProcessClose ''notepad.exe'')
       (Threw (ThrownError (Error ''Error'' ''AutoIt not loaded'')))) =
     Returned \<lparr>content = [TextContent ''Error: AutoIt not loaded''], isError = Some True\<rparr>"
  using tool_invocation_returns_one_envelope
    [of "Returned ()"
        "NumTool (ProcessClose ''notepad.exe'') (Threw (ThrownError (Error ''Error'' ''AutoIt not loaded'')))"]
  by (simp add: and_then_def)

subsection \<open>Claim C2\<close>




section \<open>Properties of the resources\<close>

lemma getMimeType_lookup:
  "getMimeType ext =
     (case map_of mimeTypes ext of Some m \<Rightarrow> m | None \<Rightarrow> ''application/octet-stream'')"
proof (cases "map_of mimeTypes ext")
  case None
  then show ?thesis by (simp add: getMimeType_def)
next
  case (Some m)
  then have "(ext, m) \<in> set mimeTypes" by (rule map_of_SomeD)
  then have "m \<noteq> []" by (auto simp: mimeTypes_def)
  with Some show ?thesis by (simp add: getMimeType_def)
qed

subsection \<open>Claim C10\<close>

text \<open>
  C10. For a path that is not a directory and whose file can be read, the file resource
  returns exactly one content item. Its shape depends on the lower-cased extension alone:
  a \<^verbatim>\<open>text\<close> field holding the UTF-8 decoding when the extension is in the fixed list of
  text extensions, otherwise a \<^verbatim>\<open>blob\<close> field holding the base64 encoding. Its
  \<^verbatim>\<open>mimeType\<close> comes from the fixed table and defaults to \<^verbatim>\<open>application/octet-stream\<close>;
  \<^verbatim>\<open>.log\<close>, \<^verbatim>\<open>.ini\<close> and \<^verbatim>\<open>.bat\<close> are text extensions missing from the table, so such
  files are returned as text with that default type.
\<close>

theorem file_resource_shape_by_extension:
  "(fs_stat F (filePath_of path) = Returned False \<and>
    fs_readFile F (filePath_of path) = Returned bytes \<longrightarrow>
    file_resource F href path =
      Returned \<lparr>contents =
        [if toLowerCase (path_extname F (filePath_of path)) \<in> set textExtensions
         then \<lparr>uri = href, text' = Some (toString_utf8 F bytes), blob = None,
                mimeType = getMimeType (toLowerCase (path_extname F (filePath_of path)))\<rparr>
         else \<lparr>uri = href, text' = None, blob = Some (toString_base64 F bytes),
                mimeType = getMimeType (toLowerCase (path_extname F (filePath_of path)))\<rparr>]\<rparr>) \<and>
   getMimeType ext =
     (case map_of mimeTypes ext of Some m \<Rightarrow> m | None \<Rightarrow> ''application/octet-stream'') \<and>
   set [''.log'', ''.ini'', ''.bat''] \<subseteq> set textExtensions \<and>
   map getMimeType [''.log'', ''.ini'', ''.bat''] = replicate 3 ''application/octet-stream''"
proof (intro conjI impI)
  assume "fs_stat F (filePath_of path) = Returned False \<and>
    fs_readFile F (filePath_of path) = Returned bytes"
  then show "file_resource F href path =
      Returned \<lparr>contents =
        [if toLowerCase (path_extname F (filePath_of path)) \<in> set textExtensions
         then \<lparr>uri = href, text' = Some (toString_utf8 F bytes), blob = None,
                mimeType = getMimeType (toLowerCase (path_extname F (filePath_of path)))\<rparr>
         else \<lparr>uri = href, text' = None, blob = Some (toString_base64 F bytes),
                mimeType = getMimeType (toLowerCase (path_extname F (filePath_of path)))\<rparr>]\<rparr>"
    by (simp add: file_resource_def try_catch_def and_then_def Let_def)
next
  show "getMimeType ext =
     (case map_of mimeTypes ext of Some m \<Rightarrow> m | None \<Rightarrow> ''application/octet-stream'')"
    by (rule getMimeType_lookup)
next
  show "set [''.log'', ''.ini'', ''.bat''] \<subseteq> set textExtensions"
    by (simp add: textExtensions_def)
next
  show "map getMimeType [''.log'', ''.ini'', ''.bat''] = replicate 3 ''application/octet-stream''"
    by (simp add: getMimeType_def mimeTypes_def numeral_3_eq_3)
qed

theorem file_resource_shape_by_extension_witness:
  "file_resource
     \<lparr>fs_stat = (\<lambda>p. Returned False), fs_readdir = (\<lambda>p. Returned []),
      fs_readFile = (\<lambda>p. Returned ''started''), path_extname = (\<lambda>p. ''.LOG''),
      path_join = (\<lambda>a b. a @ ''/'' @ b), toString_utf8 = (\<lambda>b. b),
      toString_base64 = (\<lambda>b. ''c3RhcnRlZA=='')\<rparr>
     ''file:///var/run.LOG'' (Many [''var'', ''run.LOG'']) =
   Returned \<lparr>contents =
     [\<lparr>uri = ''file:///var/run.LOG'', text' = Some ''started'', blob = None,
       mimeType = ''application/octet-stream''\<rparr>]\<rparr> \<and>
   file_resource
     \<lparr>fs_stat = (\<lambda>p. Returned False), fs_readdir = (\<lambda>p. Returned []),
      fs_readFile = (\<lambda>p. Returned ''started''), path_extname = (\<lambda>p. ''.png''),
      path_join = (\<lambda>a b. a @ ''/'' @ b), toString_utf8 = (\<lambda>b. b),
      toString_base64 = (\<lambda>b. ''c3RhcnRlZA=='')\<rparr>
     ''file:///var/a.png'' (Single ''var/a.png'') =
   Returned \<lparr>contents =
     [\<lparr>uri = ''file:///var/a.png'', text' = None, blob = Some ''c3RhcnRlZA=='',
       mimeType = ''image/png''\<rparr>]\<rparr>"
proof -
  let ?F = "\<lambda>e. \<lparr>fs_stat = (\<lambda>p. Returned False), fs_readdir = (\<lambda>p. Returned []),
      fs_readFile = (\<lambda>p. Returned ''started''), path_extname = (\<lambda>p. e),
      path_join = (\<lambda>a b. a @ ''/'' @ b), toString_utf8 = (\<lambda>b. b),
      toString_base64 = (\<lambda>b. ''c3RhcnRlZA=='')\<rparr>"
  have low: "toLowerCase ''.LOG'' = ''.log''" "toLowerCase ''.png'' = ''.png''"
    by (simp_all add: toLowerCase_def toLowerCase_char_def)
  have a: "file_resource (?F ''.LOG'') ''file:///var/run.LOG'' (Many [''var'', ''run.LOG'']) =
     Returned \<lparr>contents =
       [\<lparr>uri = ''file:///var/run.LOG'', text' = Some ''started'', blob = None,
         mimeType = ''application/octet-stream''\<rparr>]\<rparr>"
    using file_resource_shape_by_extension
      [of "?F ''.LOG''" "Many [''var'', ''run.LOG'']" "''started''" "''file:///var/run.LOG''" "''.log''"]
    by (simp add: low textExtensions_def mimeTypes_def)
  have b: "file_resource (?F ''.png'') ''file:///var/a.png'' (Single ''var/a.png'') =
     Returned \<lparr>contents =
       [\<lparr>uri = ''file:///var/a.png'', text' = None, blob = Some ''c3RhcnRlZA=='',
         mimeType = ''image/png''\<rparr>]\<rparr>"
    using file_resource_shape_by_extension
      [of "?F ''.png''" "Single ''var/a.png''" "''started''" "''file:///var/a.png''" "''.png''"]
    by (simp add: low textExtensions_def getMimeType_def mimeTypes_def)
  show ?thesis
    using a b by simp
qed

subsection \<open>Claim C9\<close>

text \<open>
  C9. A screenshot request that carries a window name asks the automation library whether
  the window exists. If it does, the handler activates it, waits, and returns a single
  text placeholder item; if it does not, the handler makes no further call and throws
  \<^verbatim>\<open>Failed to take screenshot: Window "..." not found\<close> to its caller. A request without a
  window name, and likewise a request whose window name is the empty string, makes no
  window lookup at all and returns the placeholder for the full screen. (Here
  \<^verbatim>\<open>autoIt.init()\<close> and the delegated calls are taken to return; a throw from any of them
  is rethrown in the same way.)
\<close>

theorem screenshot_resource_window_lookup:
  "(w \<noteq> [] \<and> autoIt_init A = Returned () \<and> autoIt_winExists A w = Returned r \<and> r \<noteq> 0 \<and>
    autoIt_winActivate A w = Returned r' \<longrightarrow>
      screenshot_resource A href (Some w) =
        ([Call_init, Call_winExists w, Call_winActivate w, Wait_ms 500],
         Returned \<lparr>contents =
           [\<lparr>uri = href, text' = Some (''Screenshot of '' @ w @ '' would be captured here''),
             blob = None, mimeType = ''text/plain''\<rparr>]\<rparr>)) \<and>
   (w \<noteq> [] \<and> autoIt_init A = Returned () \<and> autoIt_winExists A w = Returned 0 \<longrightarrow>
      screenshot_resource A href (Some w) =
        ([Call_init, Call_winExists w],
         Threw (ThrownError (Error ''Error''
           (''Failed to take screenshot: Window \"'' @ w @ ''\" not found''))))) \<and>
   (autoIt_init A = Returned () \<and> (window = None \<or> window = Some []) \<longrightarrow>
      screenshot_resource A href window =
        ([Call_init],
         Returned \<lparr>contents =
           [\<lparr>uri = href, text' = Some ''Screenshot of full screen would be captured here'',
             blob = None, mimeType = ''text/plain''\<rparr>]\<rparr>))"
  by (auto simp add: screenshot_resource_def then_do_def windowName_of_def Let_def)

theorem screenshot_resource_window_lookup_witness:
  "screenshot_resource
     \<lparr>autoIt_init = Returned (),
      autoIt_winExists = (\<lambda>t. Returned (if t = ''Notepad'' then 1 else 0)),
      autoIt_winActivate = (\<lambda>t. Returned 1)\<rparr>
     ''screenshot://Notepad'' (Some ''Notepad'') =
     ([Call_init, Call_winExists ''Notepad'', Call_winActivate ''Notepad'', Wait_ms 500],
      Returned \<lparr>contents =
        [\<lparr>uri = ''screenshot://Notepad'',
          text' = Some ''Screenshot of Notepad would be captured here'',
          blob = None, mimeType = ''text/plain''\<rparr>]\<rparr>) \<and>
   screenshot_resource
     \<lparr>autoIt_init = Returned (),
      autoIt_winExists = (\<lambda>t. Returned (if t = ''Notepad'' then 1 else 0)),
      autoIt_winActivate = (\<lambda>t. Returned 1)\<rparr>
     ''screenshot://Paint'' (Some ''Paint'') =
     ([Call_init, Call_winExists ''Paint''],
      Threw (ThrownError (Error ''Error''
        ''Failed to take screenshot: Window \"Paint\" not found''))) \<and>
   screenshot_resource
     \<lparr>autoIt_init = Returned (),
      autoIt_winExists = (\<lambda>t. Returned (if t = ''Notepad'' then 1 else 0)),
      autoIt_winActivate = (\<lambda>t. Returned 1)\<rparr>
     ''screenshot://'' None =
     ([Call_init],
      Returned \<lparr>contents =
        [\<lparr>uri = ''screenshot://'',
          text' = Some ''Screenshot of full screen would be captured here'',
          blob = None, mimeType = ''text/plain''\<rparr>]\<rparr>) \<and>
   screenshot_resource
     \<lparr>autoIt_init = Returned (),
      autoIt_winExists = (\<lambda>t. Returned (if t = ''Notepad'' then 1 else 0)),
      autoIt_winActivate = (\<lambda>t. Returned 1)\<rparr>
     ''screenshot://'' (Some []) =
     ([Call_init],
      Returned \<lparr>contents =
        [\<lparr>uri = ''screenshot://'',
          text' = Some ''Screenshot of full screen would be captured here'',
          blob = None, mimeType = ''text/plain''\<rparr>]\<rparr>)"
proof -
  let ?A = "\<lparr>autoIt_init = Returned (),
      autoIt_winExists = (\<lambda>t. Returned (if t = ''Notepad'' then 1 else (0::int))),
      autoIt_winActivate = (\<lambda>t. Returned (1::int))\<rparr>"
  show ?thesis
    using screenshot_resource_window_lookup
            [of "''Notepad''" ?A 1 1 "''screenshot://Notepad''" None]
          screenshot_resource_window_lookup
            [of "''Paint''" ?A 0 1 "''screenshot://Paint''" None]
          screenshot_resource_window_lookup
            [of "''Paint''" ?A 0 1 "''screenshot://''" None]
          screenshot_resource_window_lookup
            [of "''Paint''" ?A 0 1 "''screenshot://''" "Some []"]
    by simp
qed

section \<open>Properties of the transport choice\<close>

subsection \<open>Claim C8\<close>

text \<open>
  C8. For every transport kind other than \<^verbatim>\<open>stdio\<close> and \<^verbatim>\<open>websocket\<close>, \<^verbatim>\<open>startServer\<close>
  constructs the server object, registers the tools, resources and prompts, logs the
  configuration error \<^verbatim>\<open>Unsupported transport: ...\<close> and exits the process with code 1:
  these are all its effects, so no stream or network resource is opened and nothing is
  tried a second time. \<^verbatim>\<open>setupServer\<close> throws the same error having only constructed the
  server object.
\<close>

theorem unsupported_transport_fails_fast:
  "transport \<noteq> ''stdio'' \<and> transport \<noteq> ''websocket'' \<longrightarrow>
     startServer transport port connect =
       [New_McpServer 0, Register_tools 0, Register_resources 0, Register_prompts 0,
        Log_error ''Failed to start server''
          (Some (ThrownError (Error ''Error'' (''Unsupported transport: '' @ transport)))),
        Process_exit 1] \<and>
     filter opens_resource (startServer transport port connect) = [] \<and>
     last (startServer transport port connect) = Process_exit 1 \<and>
     (config_transport config = transport \<longrightarrow>
        setupServer config connect w =
          (Threw (ThrownError (Error ''Error'' (''Unsupported transport: '' @ transport))),
           w\<lparr>fresh := fresh w + 1, effects := effects w @ [New_McpServer (fresh w)]\<rparr>))"
  by (simp add: startServer_def setupServer_def Let_def)

theorem unsupported_transport_fails_fast_witness:
  "startServer ''tcp'' 3000 (Returned ()) =
     [New_McpServer 0, Register_tools 0, Register_resources 0, Register_prompts 0,
      Log_error ''Failed to start server''
        (Some (ThrownError (Error ''Error'' ''Unsupported transport: tcp''))),
      Process_exit 1] \<and>
   filter opens_resource (startServer ''tcp'' 3000 (Returned ())) = [] \<and>
   fst (setupServer
     \<lparr>config_name = ''Windows Desktop Automation'', config_version = ''1.0.0'',
      config_transport = ''tcp'', config_port = None\<rparr>
     (Returned ())
     (\<lparr>fresh = 0, effects = [], transports = Map.empty\<rparr> :: unit world)) =
     Threw (ThrownError (Error ''Error'' ''Unsupported transport: tcp''))"
  using unsupported_transport_fails_fast
    [of "''tcp''" 3000 "Returned ()"
        "\<lparr>config_name = ''Windows Desktop Automation'', config_version = ''1.0.0'',
          config_transport = ''tcp'', config_port = None\<rparr>"
        "\<lparr>fresh = 0, effects = [], transports = Map.empty\<rparr> :: unit world"]
  by simp

subsection \<open>Claim C1\<close>

lemma sessions_append: "sessions (xs @ ys) = sessions xs @ sessions ys"
  by (induction xs rule: sessions.induct) simp_all

lemma cores_append: "cores (xs @ ys) = cores xs @ cores ys"
  by (induction xs rule: cores.induct) simp_all

lemma fresh_accept_all: "fresh (accept_all server accepted w) = fresh w + length accepted"
  by (induction server accepted w rule: accept_all.induct) (simp_all add: on_connection_def Let_def)

lemma cores_accept_all: "cores (effects (accept_all server accepted w)) = cores (effects w)"
  by (induction server accepted w rule: accept_all.induct)
     (simp_all add: on_connection_def Let_def cores_append)

lemma sessions_accept_all:
  "sessions (effects (accept_all server accepted w)) =
     sessions (effects w) @ map (\<lambda>i. (server, fresh w + i)) [0..<length accepted]"
proof (induction server accepted w rule: accept_all.induct)
  case (1 server w)
  then show ?case by simp
next
  case (2 server socket random rest w)
  have "map (\<lambda>i. (server, fresh w + i)) [0..<Suc (length rest)] =
        (server, fresh w) # map (\<lambda>i. (server, Suc (fresh w) + i)) [0..<length rest]"
    by (simp add: upt_conv_Cons map_Suc_upt[symmetric] del: upt_Suc)
  with 2 show ?case
    by (simp add: on_connection_def Let_def sessions_append)
qed

lemma transports_accept_all_old:
  "k < fresh w \<Longrightarrow> transports (accept_all server accepted w) k = transports w k"
  by (induction server accepted w rule: accept_all.induct) (simp_all add: on_connection_def Let_def)

lemma transports_accept_all:
  "i < length accepted \<Longrightarrow>
   transports (accept_all server accepted w) (fresh w + i) =
     Some (new_WebSocketServerTransport (fst (accepted ! i)) (snd (accepted ! i)))"
proof (induction server accepted w arbitrary: i rule: accept_all.induct)
  case (1 server w)
  then show ?case by simp
next
  case (2 server socket random rest w)
  show ?case
  proof (cases i)
    case 0
    then show ?thesis
      using transports_accept_all_old[of "fresh w" "on_connection server socket random w" server rest]
      by (simp add: on_connection_def Let_def)
  next
    case (Suc j)
    with 2 show ?thesis by (simp add: on_connection_def Let_def)
  qed
qed

text \<open>
  C1, as the spec states it, fails: \<^verbatim>\<open>setupServer\<close> constructs one \<^verbatim>\<open>McpServer\<close> and its
  connection listener attaches every new transport to that same object. After two
  accepted connections the two sessions have the same message-handling core.
\<close>

theorem sessions_share_core_counterexample:
  "sessions (effects (serve
      \<lparr>config_name = ''Windows Desktop Automation'', config_version = ''1.0.0'',
       config_transport = ''websocket'', config_port = Some 3000\<rparr>
      [(7, ''k3x9u2''), (8, ''p0q4w1'')]
      (\<lparr>fresh = 0, effects = [], transports = Map.empty\<rparr> :: unit world))) =
     [(0, 3), (0, 4)] \<and>
   cores (effects (serve
      \<lparr>config_name = ''Windows Desktop Automation'', config_version = ''1.0.0'',
       config_transport = ''websocket'', config_port = Some 3000\<rparr>
      [(7, ''k3x9u2''), (8, ''p0q4w1'')]
      (\<lparr>fresh = 0, effects = [], transports = Map.empty\<rparr> :: unit world))) = [0]"
  by (simp add: serve_def setupServer_def on_connection_def Let_def)

text \<open>
  C1, amended. For the websocket transport, \<^verbatim>\<open>setupServer\<close> constructs one message-handling
  core, and for every accepted connection its listener constructs one new transport, with
  that connection's socket and no callbacks assigned, and attaches it to that one core:
  the sessions are the pairs of the one core with transports that are pairwise distinct
  and distinct from every object constructed before. No further core is constructed.
\<close>

theorem one_transport_per_connection_one_core:
  "config_transport config = ''websocket'' \<longrightarrow>
     sessions (effects (serve config accepted w)) =
       sessions (effects w) @ map (\<lambda>i. (fresh w, fresh w + 3 + i)) [0..<length accepted] \<and>
     cores (effects (serve config accepted w)) = cores (effects w) @ [fresh w] \<and>
     distinct (map (\<lambda>i. fresh w + 3 + i) [0..<length accepted]) \<and>
     (\<forall>i < length accepted.
        transports (serve config accepted w) (fresh w + 3 + i) =
          Some (new_WebSocketServerTransport (fst (accepted ! i)) (snd (accepted ! i))))"
proof
  assume ws: "config_transport config = ''websocket''"
  define w2 where "w2 = snd (setupServer config (Returned ()) w)"
  have set_up: "setupServer config (Returned ()) w =
      (Returned \<lparr>result_server = fresh w, result_httpServer = Some (fresh w + 1)\<rparr>, w2)"
    using ws by (simp add: w2_def setupServer_def Let_def)
  have fresh2: "fresh w2 = fresh w + 3"
    using ws by (simp add: w2_def setupServer_def Let_def)
  have sess2: "sessions (effects w2) = sessions (effects w)"
    using ws by (simp add: w2_def setupServer_def Let_def sessions_append)
  have cores2: "cores (effects w2) = cores (effects w) @ [fresh w]"
    using ws by (simp add: w2_def setupServer_def Let_def cores_append)
  have served: "serve config accepted w = accept_all (fresh w) accepted w2"
    by (simp add: serve_def set_up)
  have d: "distinct (map (\<lambda>i. fresh w + 3 + i) [0..<length accepted])"
    by (simp add: distinct_map inj_on_def)
  show "sessions (effects (serve config accepted w)) =
       sessions (effects w) @ map (\<lambda>i. (fresh w, fresh w + 3 + i)) [0..<length accepted] \<and>
     cores (effects (serve config accepted w)) = cores (effects w) @ [fresh w] \<and>
     distinct (map (\<lambda>i. fresh w + 3 + i) [0..<length accepted]) \<and>
     (\<forall>i < length accepted.
        transports (serve config accepted w) (fresh w + 3 + i) =
          Some (new_WebSocketServerTransport (fst (accepted ! i)) (snd (accepted ! i))))"
    using d transports_accept_all[of _ accepted "fresh w" w2]
    by (simp add: served sessions_accept_all cores_accept_all fresh2 sess2 cores2)
qed

theorem one_transport_per_connection_one_core_witness:
  "sessions (effects (serve
      \<lparr>config_name = ''Windows Desktop Automation'', config_version = ''1.0.0'',
       config_transport = ''websocket'', config_port = None\<rparr>
      [(7, ''k3x9u2''), (8, ''p0q4w1''), (9, ''zz81kd'')]
      (\<lparr>fresh = 0, effects = [], transports = Map.empty\<rparr> :: unit world))) =
     [(0, 3), (0, 4), (0, 5)] \<and>
   cores (effects (serve
      \<lparr>config_name = ''Windows Desktop Automation'', config_version = ''1.0.0'',
       config_transport = ''websocket'', config_port = None\<rparr>
      [(7, ''k3x9u2''), (8, ''p0q4w1''), (9, ''zz81kd'')]
      (\<lparr>fresh = 0, effects = [], transports = Map.empty\<rparr> :: unit world))) = [0]"
  using one_transport_per_connection_one_core
    [of "\<lparr>config_name = ''Windows Desktop Automation'', config_version = ''1.0.0'',
          config_transport = ''websocket'', config_port = None\<rparr>"
        "[(7, ''k3x9u2''), (8, ''p0q4w1''), (9, ''zz81kd'')]"
        "\<lparr>fresh = 0, effects = [], transports = Map.empty\<rparr> :: unit world"]
  by (simp add: upt_conv_Cons)

section \<open>Properties of the WebSocket transport\<close>

lemma step_callbacks:
  "onclose (fst (step J this s)) = onclose this \<and>
   onerror (fst (step J this s)) = onerror this \<and>
   onmessage (fst (step J this s)) = onmessage this"
  by (cases s) (simp_all add: close_def on_close_def split: option.splits)

lemma step_callbacks_return:
  "callbacks_return this \<Longrightarrow> callbacks_return (fst (step J this s))"
  using step_callbacks[of J this s] by (simp add: callbacks_return_def)

lemma optional_call_returns:
  "(\<And>f. callback = Some f \<Longrightarrow> f arg = Returned ()) \<Longrightarrow>
   snd (optional_call callback arg action) = Returned ()"
  by (cases callback) (simp_all add: optional_call_def)

lemma on_message_returns:
  assumes "callbacks_return this"
  shows "snd (on_message J this data) = Returned ()"
proof (cases "JSON_parse J data")
  case (Threw e)
  then show ?thesis
    using assms
    by (cases "onerror this")
       (simp_all add: on_message_def try_catch_traced_def then_do_def optional_call_def
                      callbacks_return_def Let_def)
next
  case (Returned m)
  then show ?thesis
    using assms
    by (cases "onmessage this")
       (simp_all add: on_message_def try_catch_traced_def then_do_def optional_call_def
                      callbacks_return_def Let_def)
qed

lemma step_returns:
  assumes "callbacks_return this"
  shows "snd (snd (step J this s)) = Returned ()"
proof (cases s)
  case (On_message data)
  then show ?thesis using on_message_returns[OF assms] by simp
next
  case On_close
  then show ?thesis
    using assms by (cases "onclose this") (simp_all add: on_close_def optional_call_def callbacks_return_def)
next
  case (On_error e)
  then show ?thesis
    using assms by (cases "onerror this") (simp_all add: on_error_def optional_call_def callbacks_return_def)
qed simp_all

lemma run_Cons_returns:
  assumes "callbacks_return this"
  shows "run J this (s # ss) =
     (fst (run J (fst (step J this s)) ss),
      fst (snd (step J this s)) @ snd (run J (fst (step J this s)) ss))"
  using step_returns[OF assms, of J s]
  by (cases "step J this s") (auto split: prod.splits outcome.splits)

lemma step_closed: "ws this = None \<Longrightarrow> ws (fst (step J this s)) = None"
  by (cases s) (simp_all add: close_def on_close_def)

lemma step_ws: "ws (fst (step J this s)) = None \<or> ws (fst (step J this s)) = ws this"
  by (cases s) (simp_all add: close_def on_close_def split: option.splits)

lemma run_closed: "ws this = None \<Longrightarrow> ws (fst (run J this ss)) = None"
proof (induction ss arbitrary: this)
  case Nil
  then show ?case by simp
next
  case (Cons s ss)
  from Cons.prems have "ws (fst (step J this s)) = None" by (rule step_closed)
  then have "ws (fst (run J (fst (step J this s)) ss)) = None" by (rule Cons.IH)
  then show ?case
    using \<open>ws (fst (step J this s)) = None\<close>
    by (cases "step J this s") (auto split: prod.splits outcome.splits)
qed

lemma run_ws: "ws (fst (run J this ss)) = None \<or> ws (fst (run J this ss)) = ws this"
proof (induction ss arbitrary: this)
  case Nil
  then show ?case by simp
next
  case (Cons s ss)
  show ?case
    using Cons.IH[of "fst (step J this s)"] step_ws[of J this s]
    by (cases "step J this s") (auto split: prod.splits outcome.splits)
qed

lemma run_append_closed:
  "ws (fst (run J this ss)) = None \<Longrightarrow> ws (fst (run J this (ss @ ss'))) = None"
proof (induction ss arbitrary: this)
  case Nil
  then show ?case by (simp add: run_closed)
next
  case (Cons s ss)
  obtain this' as r where st: "step J this s = (this', as, r)"
    by (cases "step J this s") auto
  show ?case
  proof (cases r)
    case (Threw e)
    with st Cons.prems show ?thesis by simp
  next
    case (Returned u)
    with st Cons.prems have "ws (fst (run J this' ss)) = None"
      by (simp split: prod.splits)
    then have "ws (fst (run J this' (ss @ ss'))) = None" by (rule Cons.IH)
    with st Returned show ?thesis by (auto split: prod.splits)
  qed
qed

lemma step_onclose_count:
  assumes "onclose this = Some f"
  shows "count_list (fst (snd (step J this s))) Called_onclose = (if s = On_close then 1 else 0)"
proof (cases s)
  case Do_start
  then show ?thesis by (simp add: start_def)
next
  case (Do_send m written)
  then show ?thesis by (simp add: send_def split: option.splits)
next
  case Do_close
  then show ?thesis by (simp add: close_def split: option.splits)
next
  case (On_message data)
  then show ?thesis
    by (cases "JSON_parse J data"; cases "onmessage this"; cases "onerror this")
       (simp_all add: on_message_def try_catch_traced_def then_do_def optional_call_def Let_def
                 split: outcome.splits)
next
  case On_close
  then show ?thesis using assms by (simp add: on_close_def optional_call_def)
next
  case (On_error e)
  then show ?thesis by (cases "onerror this") (simp_all add: on_error_def optional_call_def)
qed

lemma count_list_append': "count_list (xs @ ys) a = count_list xs a + count_list ys a"
  by (induction xs) simp_all

lemma run_onclose_count:
  "callbacks_return this \<Longrightarrow> onclose this = Some f \<Longrightarrow>
   count_list (snd (run J this ss)) Called_onclose = count_list ss On_close"
proof (induction ss arbitrary: this)
  case Nil
  then show ?case by simp
next
  case (Cons s ss)
  have cb: "callbacks_return (fst (step J this s))"
    using Cons.prems(1) by (rule step_callbacks_return)
  have oc: "onclose (fst (step J this s)) = Some f"
    using step_callbacks[of J this s] Cons.prems(2) by simp
  have "count_list (snd (run J (fst (step J this s)) ss)) Called_onclose = count_list ss On_close"
    using cb oc by (rule Cons.IH)
  then show ?case
    using step_onclose_count[OF Cons.prems(2), of J s]
    unfolding run_Cons_returns[OF Cons.prems(1)]
    by (simp add: count_list_append' del: run.simps step.simps)
qed

subsection \<open>Claim C4\<close>

text \<open>
  C4. When \<^verbatim>\<open>JSON.parse\<close> throws on a frame and an error callback is assigned, the
  \<^verbatim>\<open>'message'\<close> listener invokes the error callback once, with
  \<^verbatim>\<open>Failed to parse message: ...\<close>, and does not invoke the message callback. The
  transport is left as it was, its socket reference included, and whatever comes next is
  handled as it would have been without the bad frame: the actions of an execution that
  starts with the bad frame are the one error call followed by the actions of the rest.
\<close>

theorem unparseable_frame_reports_one_error:
  "JSON_parse J data = Threw e \<and> onerror this = Some report \<longrightarrow>
     on_message J this data =
       ([Called_onerror (Error ''Error'' (''Failed to parse message: '' @ js_String e))],
        report (Error ''Error'' (''Failed to parse message: '' @ js_String e))) \<and>
     fst (step J this (On_message data)) = this \<and>
     (report (Error ''Error'' (''Failed to parse message: '' @ js_String e)) = Returned () \<longrightarrow>
        run J this (On_message data # ss) =
          (fst (run J this ss),
           Called_onerror (Error ''Error'' (''Failed to parse message: '' @ js_String e))
             # snd (run J this ss)))"
  by (simp add: on_message_def try_catch_traced_def then_do_def optional_call_def Let_def
           split: prod.splits)

theorem unparseable_frame_reports_one_error_witness:
  "run
     \<lparr>JSON_parse =
         (\<lambda>data. if data = ''7'' then Returned (7::int)
                  else Threw (ThrownError (Error ''SyntaxError'' ''Unexpected token''))),
       JSON_stringify = show_num\<rparr>
     \<lparr>ws = Some 7, sessionId = ''k3x9u2'', onclose = None,
      onerror = Some (\<lambda>e. Returned ()), onmessage = Some (\<lambda>m. Returned ())\<rparr>
     [On_message ''not json'', On_message ''7''] =
     (\<lparr>ws = Some 7, sessionId = ''k3x9u2'', onclose = None,
       onerror = Some (\<lambda>e. Returned ()), onmessage = Some (\<lambda>m. Returned ())\<rparr>,
      [Called_onerror (Error ''Error''
         ''Failed to parse message: SyntaxError: Unexpected token''),
       Called_onmessage 7])"
  using unparseable_frame_reports_one_error
      [of "\<lparr>JSON_parse =
         (\<lambda>data. if data = ''7'' then Returned (7::int)
                  else Threw (ThrownError (Error ''SyntaxError'' ''Unexpected token''))),
       JSON_stringify = show_num\<rparr>"
          "''not json''"
          "ThrownError (Error ''SyntaxError'' ''Unexpected token'')"
          "\<lparr>ws = Some 7, sessionId = ''k3x9u2'', onclose = None,
            onerror = Some (\<lambda>e. Returned ()), onmessage = Some (\<lambda>m. Returned ())\<rparr>"
          "\<lambda>e. Returned ()" "[On_message ''7'']"]
  by (simp add: on_message_def try_catch_traced_def then_do_def optional_call_def)

subsection \<open>Claim C5\<close>

text \<open>
  C5. A transport whose socket reference is cleared rejects every \<^verbatim>\<open>send\<close> with
  \<^verbatim>\<open>WebSocket not connected\<close> and writes nothing; \<^verbatim>\<open>close()\<close> and the socket's close event
  both clear the reference. A transport that holds a socket writes the serialized message
  to it once, and the promise it returns is pending until the socket completes the write,
  then resolved when the write reported no error and rejected with the error it reported.
\<close>

theorem send_rejects_closed_and_follows_the_write:
  "(ws this = None \<longrightarrow>
      send J this msg written =
        ([], Rejected (ThrownError (Error ''Error'' ''WebSocket not connected'')))) \<and>
   send J (fst (close this)) msg written =
     ([], Rejected (ThrownError (Error ''Error'' ''WebSocket not connected''))) \<and>
   send J (fst (on_close this)) msg written =
     ([], Rejected (ThrownError (Error ''Error'' ''WebSocket not connected''))) \<and>
   (ws this = Some socket \<longrightarrow>
      fst (send J this msg written) = [Socket_send socket (JSON_stringify J msg)] \<and>
      snd (send J this msg Not_completed) = Pending \<and>
      snd (send J this msg (Completed None)) = Resolved () \<and>
      snd (send J this msg (Completed (Some failure))) = Rejected (ThrownError failure))"
  by (simp add: send_def close_def on_close_def split: option.splits)

theorem send_rejects_closed_and_follows_the_write_witness:
  "send
     \<lparr>JSON_parse =
         (\<lambda>data. if data = ''7'' then Returned (7::int)
                  else Threw (ThrownError (Error ''SyntaxError'' ''Unexpected token''))),
       JSON_stringify = show_num\<rparr>
     \<lparr>ws = Some 7, sessionId = ''k3x9u2'', onclose = None, onerror = None, onmessage = None\<rparr>
     7 (Completed None) =
     ([Socket_send 7 ''7''], Resolved ()) \<and>
   send
     \<lparr>JSON_parse =
         (\<lambda>data. if data = ''7'' then Returned (7::int)
                  else Threw (ThrownError (Error ''SyntaxError'' ''Unexpected token''))),
       JSON_stringify = show_num\<rparr>
     \<lparr>ws = None, sessionId = ''k3x9u2'', onclose = None, onerror = None, onmessage = None\<rparr>
     7 (Completed None) =
     ([], Rejected (ThrownError (Error ''Error'' ''WebSocket not connected'')))"
  using send_rejects_closed_and_follows_the_write
      [of "\<lparr>ws = Some 7, sessionId = ''k3x9u2'', onclose = None, onerror = None,
            onmessage = None\<rparr>"
          "\<lparr>JSON_parse =
         (\<lambda>data. if data = ''7'' then Returned (7::int)
                  else Threw (ThrownError (Error ''SyntaxError'' ''Unexpected token''))),
       JSON_stringify = show_num\<rparr>"
          7 "Completed None" 7]
    send_rejects_closed_and_follows_the_write
      [of "\<lparr>ws = None, sessionId = ''k3x9u2'', onclose = None, onerror = None,
            onmessage = None\<rparr>"
          "\<lparr>JSON_parse =
         (\<lambda>data. if data = ''7'' then Returned (7::int)
                  else Threw (ThrownError (Error ''SyntaxError'' ''Unexpected token''))),
       JSON_stringify = show_num\<rparr>"
          7 "Completed None" 7]
  by (simp add: send_def show_num_def show_nat.simps digit_def)

subsection \<open>Claim C6\<close>

text \<open>
  C6. In every execution of a transport whose callbacks return and whose close callback
  is assigned, the close callback is invoked once for each close event of the socket and
  never otherwise: so exactly once when the socket closes, however often \<^verbatim>\<open>close()\<close> is
  also called, before or after. Both \<^verbatim>\<open>close()\<close> and the close event clear the socket
  reference. The reference only ever changes to cleared: an execution ends with the
  reference it started with or with none, once it is cleared it is cleared after every
  continuation of the execution, and every \<^verbatim>\<open>send\<close> from then on is rejected.
\<close>

theorem closes_once_and_stays_closed:
  "(callbacks_return this \<and> onclose this = Some notify \<longrightarrow>
      count_list (snd (run J this ss)) Called_onclose = count_list ss On_close) \<and>
   ws (fst (step J this Do_close)) = None \<and>
   ws (fst (step J this On_close)) = None \<and>
   (ws (fst (run J this ss)) = None \<or> ws (fst (run J this ss)) = ws this) \<and>
   (ws (fst (run J this ss)) = None \<longrightarrow>
      ws (fst (run J this (ss @ ss'))) = None \<and>
      send J (fst (run J this (ss @ ss'))) msg written =
        ([], Rejected (ThrownError (Error ''Error'' ''WebSocket not connected''))))"
proof (intro conjI impI)
  assume "callbacks_return this \<and> onclose this = Some notify"
  then show "count_list (snd (run J this ss)) Called_onclose = count_list ss On_close"
    using run_onclose_count by blast
next
  show "ws (fst (step J this Do_close)) = None"
    by (simp add: close_def split: option.splits)
next
  show "ws (fst (step J this On_close)) = None"
    by (simp add: on_close_def)
next
  show "ws (fst (run J this ss)) = None \<or> ws (fst (run J this ss)) = ws this"
    by (rule run_ws)
next
  assume "ws (fst (run J this ss)) = None"
  then show "ws (fst (run J this (ss @ ss'))) = None"
    by (rule run_append_closed)
next
  assume "ws (fst (run J this ss)) = None"
  then have "ws (fst (run J this (ss @ ss'))) = None"
    by (rule run_append_closed)
  then show "send J (fst (run J this (ss @ ss'))) msg written =
        ([], Rejected (ThrownError (Error ''Error'' ''WebSocket not connected'')))"
    by (simp add: send_def)
qed

theorem closes_once_and_stays_closed_witness:
  "callbacks_return
     \<lparr>ws = Some 7, sessionId = ''k3x9u2'', onclose = Some (\<lambda>u. Returned ()),
      onerror = None, onmessage = (None :: (int \<Rightarrow> unit outcome) option)\<rparr> \<and>
   snd (run
     \<lparr>JSON_parse =
         (\<lambda>data. if data = ''7'' then Returned (7::int)
                  else Threw (ThrownError (Error ''SyntaxError'' ''Unexpected token''))),
       JSON_stringify = show_num\<rparr>
     \<lparr>ws = Some 7, sessionId = ''k3x9u2'', onclose = Some (\<lambda>u. Returned ()),
      onerror = None, onmessage = None\<rparr>
     [Do_close, On_close, Do_close, Do_send 7 (Completed None)]) =
     [Socket_close 7, Returned_promise (Resolved ()), Called_onclose,
      Returned_promise (Resolved ()),
      Returned_promise (Rejected (ThrownError (Error ''Error'' ''WebSocket not connected'')))] \<and>
   count_list (snd (run
     \<lparr>JSON_parse =
         (\<lambda>data. if data = ''7'' then Returned (7::int)
                  else Threw (ThrownError (Error ''SyntaxError'' ''Unexpected token''))),
       JSON_stringify = show_num\<rparr>
     \<lparr>ws = Some 7, sessionId = ''k3x9u2'', onclose = Some (\<lambda>u. Returned ()),
      onerror = None, onmessage = None\<rparr>
     [Do_close, On_close, Do_close, Do_send 7 (Completed None)])) Called_onclose = 1"
  using closes_once_and_stays_closed
      [of "\<lparr>ws = Some 7, sessionId = ''k3x9u2'', onclose = Some (\<lambda>u. Returned ()),
            onerror = None, onmessage = (None :: (int \<Rightarrow> unit outcome) option)\<rparr>"
          "\<lambda>u. Returned ()"
          "\<lparr>JSON_parse =
         (\<lambda>data. if data = ''7'' then Returned (7::int)
                  else Threw (ThrownError (Error ''SyntaxError'' ''Unexpected token''))),
       JSON_stringify = show_num\<rparr>"
          "[Do_close, On_close, Do_close, Do_send 7 (Completed None)]"
          "[]" 7 "Completed None"]
  by (simp add: callbacks_return_def close_def on_close_def optional_call_def send_def)

end
